theory Spec2Isabelle
  imports Complex_Main
begin

section \<open>Strings\<close>

text \<open>
  A JavaScript string is a sequence of UTF-16 code units; \<open>length\<close>, \<open>slice\<close>, \<open>trim\<close> and
  the regular expressions of \<^verbatim>\<open>server.mjs\<close> all count code units. A code unit is modelled
  as a natural number (below 65536 in the program), a string as a list of them.
  \<open>ascii\<close> embeds an ASCII literal.
\<close>

type_synonym code_unit = nat
type_synonym jsstring = "code_unit list"

definition ascii :: "string \<Rightarrow> jsstring" where
  "ascii s = map of_char s"

text \<open>The regular-expression class \<^verbatim>\<open>\d\<close>: the ten ASCII digits.\<close>

definition is_digit :: "code_unit \<Rightarrow> bool" where
  "is_digit c = (48 \<le> c \<and> c \<le> 57)"

text \<open>
  White space as \<^verbatim>\<open>String.prototype.trim\<close>, the class \<^verbatim>\<open>\s\<close> and the grammar of
  \<^verbatim>\<open>Number(string)\<close> share it: TAB, LF, VT, FF, CR, SP, NBSP, U+1680, U+2000 to U+200A,
  U+2028, U+2029, U+202F, U+205F, U+3000 and U+FEFF.
\<close>

definition is_ws :: "code_unit \<Rightarrow> bool" where
  "is_ws c = (c \<in> {9, 10, 11, 12, 13, 32, 160, 5760, 8232, 8233, 8239, 8287, 12288, 65279}
              \<or> (8192 \<le> c \<and> c \<le> 8202))"

text \<open>The separator class \<^verbatim>\<open>[;,]\<close> of \<^verbatim>\<open>split(/[;,]/)\<close>.\<close>

definition is_sep :: "code_unit \<Rightarrow> bool" where
  "is_sep c = (c = 59 \<or> c = 44)"

text \<open>\<^verbatim>\<open>s.split(re)\<close> for a one-character class: the empty string gives one empty chunk.\<close>

fun split_on :: "(code_unit \<Rightarrow> bool) \<Rightarrow> jsstring \<Rightarrow> jsstring list" where
  "split_on p [] = [[]]"
| "split_on p (c # cs) =
     (if p c then [] # split_on p cs
      else (case split_on p cs of [] \<Rightarrow> [[c]] | t # ts \<Rightarrow> (c # t) # ts))"

definition trim :: "jsstring \<Rightarrow> jsstring" where
  "trim s = rev (dropWhile is_ws (rev (dropWhile is_ws s)))"


section \<open>Numbers\<close>

text \<open>
  A Number is NaN, an infinity or a finite value. A finite value is modelled by the rational
  it denotes: the range of binary64 is modelled (a literal of magnitude at least
  \<open>2^1024 - 2^970\<close> converts to an infinity), its precision is not (no rounding to 53
  bits), and \<open>-0\<close> is identified with \<open>0\<close>, from which the program never tells it apart.
  The model and the program agree wherever the numbers involved are exactly
  representable, as the integers of magnitude up to \<open>2^53\<close> are.
\<close>

datatype jsnum = NaN | PosInf | NegInf | Fin rat

definition MAX_ROUND :: rat where
  "MAX_ROUND = 2 ^ 1024 - 2 ^ 970"

definition round_mv :: "rat \<Rightarrow> jsnum" where
  "round_mv q = (if MAX_ROUND \<le> q then PosInf else if q \<le> - MAX_ROUND then NegInf else Fin q)"

definition isFinite :: "jsnum \<Rightarrow> bool" where
  "isFinite n = (case n of Fin _ \<Rightarrow> True | _ \<Rightarrow> False)"

definition jsnum_neg :: "jsnum \<Rightarrow> jsnum" where
  "jsnum_neg n = (case n of NaN \<Rightarrow> NaN | PosInf \<Rightarrow> NegInf | NegInf \<Rightarrow> PosInf | Fin q \<Rightarrow> Fin (- q))"

subsection \<open>\<^verbatim>\<open>Number(string)\<close>\<close>

text \<open>
  The conversion of a string to a Number (ECMAScript StringToNumber): white space is
  trimmed, the empty string is 0, and the rest must be a StrNumericLiteral: a binary,
  octal or hexadecimal integer literal without sign, or an optionally signed decimal
  literal (\<^verbatim>\<open>Infinity\<close>, or digits with an optional fraction and exponent); anything else is
  NaN.
\<close>

definition digit_val :: "code_unit \<Rightarrow> nat" where
  "digit_val c = (if 48 \<le> c \<and> c \<le> 57 then c - 48
                  else if 97 \<le> c \<and> c \<le> 102 then c - 87
                  else c - 55)"

definition is_hex :: "code_unit \<Rightarrow> bool" where
  "is_hex c = (is_digit c \<or> (97 \<le> c \<and> c \<le> 102) \<or> (65 \<le> c \<and> c \<le> 70))"

definition radix_val :: "nat \<Rightarrow> jsstring \<Rightarrow> nat" where
  "radix_val b ds = foldl (\<lambda>n c. b * n + digit_val c) 0 ds"

definition pow10 :: "int \<Rightarrow> rat" where
  "pow10 e = (if 0 \<le> e then 10 ^ nat e else 1 / 10 ^ nat (- e))"

definition digits_opt :: "jsstring \<Rightarrow> nat option" where
  "digits_opt ds = (if ds \<noteq> [] \<and> list_all is_digit ds then Some (radix_val 10 ds) else None)"

definition signed_integer :: "jsstring \<Rightarrow> int option" where
  "signed_integer r =
     (case r of [] \<Rightarrow> None
      | c # ds \<Rightarrow>
          if c = 43 then map_option int (digits_opt ds)
          else if c = 45 then map_option (\<lambda>n. - int n) (digits_opt ds)
          else map_option int (digits_opt r))"

definition exponent_part :: "jsstring \<Rightarrow> int option" where
  "exponent_part r =
     (case r of [] \<Rightarrow> Some 0
      | c # r' \<Rightarrow> if c = 101 \<or> c = 69 then signed_integer r' else None)"

definition unsigned_decimal :: "jsstring \<Rightarrow> jsnum" where
  "unsigned_decimal t =
     (if t = ascii ''Infinity'' then PosInf
      else
        let ip = takeWhile is_digit t;
            r1 = dropWhile is_digit t;
            dot = (r1 \<noteq> [] \<and> hd r1 = 46);
            fp = (if dot then takeWhile is_digit (tl r1) else []);
            r2 = (if dot then dropWhile is_digit (tl r1) else r1)
        in if ip = [] \<and> fp = [] then NaN
           else (case exponent_part r2 of
                   None \<Rightarrow> NaN
                 | Some e \<Rightarrow>
                     round_mv (of_nat (radix_val 10 (ip @ fp)) * pow10 (e - int (length fp)))))"

definition str_decimal :: "jsstring \<Rightarrow> jsnum" where
  "str_decimal t =
     (case t of [] \<Rightarrow> NaN
      | c # r \<Rightarrow>
          if c = 43 then unsigned_decimal r
          else if c = 45 then jsnum_neg (unsigned_decimal r)
          else unsigned_decimal t)"

definition non_decimal :: "jsstring \<Rightarrow> jsnum option" where
  "non_decimal t =
     (case t of
        z # x # ds \<Rightarrow>
          if z = 48 \<and> ds \<noteq> [] then
            (if (x = 120 \<or> x = 88) \<and> list_all is_hex ds
               then Some (round_mv (of_nat (radix_val 16 ds)))
             else if (x = 111 \<or> x = 79) \<and> list_all (\<lambda>c. 48 \<le> c \<and> c \<le> 55) ds
               then Some (round_mv (of_nat (radix_val 8 ds)))
             else if (x = 98 \<or> x = 66) \<and> list_all (\<lambda>c. c = 48 \<or> c = 49) ds
               then Some (round_mv (of_nat (radix_val 2 ds)))
             else None)
          else None
      | _ \<Rightarrow> None)"

definition StringToNumber :: "jsstring \<Rightarrow> jsnum" where
  "StringToNumber s =
     (let t = trim s in
      if t = [] then Fin 0
      else (case non_decimal t of Some n \<Rightarrow> n | None \<Rightarrow> str_decimal t))"

subsection \<open>\<^verbatim>\<open>String(number)\<close>\<close>

text \<open>
  The conversion of a Number to a string (ECMAScript Number::toString, radix 10): with
  \<open>s\<close> the digits of the value without trailing zeros, \<open>k\<close> their count and
  \<open>n\<close> the position of the decimal point (the value is \<open>s * 10^(n - k)\<close>), the
  text is plain digits for \<open>k \<le> n \<le> 21\<close>, digits with a point for \<open>0 < n \<le> 21\<close>,
  \<^verbatim>\<open>0.\<close> and zeros for \<open>-6 < n \<le> 0\<close>, and exponent notation otherwise. Since
  the model keeps values exact, the digits are those of the exact value. A rational with
  no finite decimal expansion is not a Number value (every binary64 value has one); the
  function is total and returns a placeholder there.
\<close>

function nat_digits :: "nat \<Rightarrow> jsstring" where
  "nat_digits n = (if n < 10 then [48 + n] else nat_digits (n div 10) @ [48 + n mod 10])"
  by pat_completeness auto
termination
  by (relation "measure id") auto

declare nat_digits.simps [simp del]

function strip_factor :: "nat \<Rightarrow> nat \<Rightarrow> nat \<times> nat" where
  "strip_factor d q =
     (if 1 < d \<and> 0 < q \<and> d dvd q
      then (case strip_factor d (q div d) of (c, r) \<Rightarrow> (Suc c, r))
      else (0, q))"
  by pat_completeness auto
termination
  by (relation "measure snd") auto

declare strip_factor.simps [simp del]

definition format_digits :: "jsstring \<Rightarrow> int \<Rightarrow> jsstring" where
  "format_digits ds n =
     (let k = int (length ds) in
      if k \<le> n \<and> n \<le> 21 then ds @ replicate (nat (n - k)) 48
      else if 0 < n \<and> n \<le> 21 then take (nat n) ds @ [46] @ drop (nat n) ds
      else if - 6 < n \<and> n \<le> 0 then [48, 46] @ replicate (nat (- n)) 48 @ ds
      else
        let e = n - 1;
            es = (if e < 0 then 45 else 43) # nat_digits (nat \<bar>e\<bar>)
        in if k = 1 then ds @ [101] @ es
           else hd ds # 46 # tl ds @ [101] @ es)"

definition pos_to_string :: "rat \<Rightarrow> jsstring" where
  "pos_to_string x =
     (let (p, q) = quotient_of x;
          (a, q1) = strip_factor 2 (nat q);
          (b, q2) = strip_factor 5 q1;
          j = max a b;
          (z, s) = strip_factor 10 (nat p * 2 ^ (j - a) * 5 ^ (j - b));
          ds = nat_digits s
      in if q2 = 1 then format_digits ds (int z - int j + int (length ds))
         else ascii ''NaN'')"

definition NumberToString :: "jsnum \<Rightarrow> jsstring" where
  "NumberToString n =
     (case n of
        NaN \<Rightarrow> ascii ''NaN''
      | PosInf \<Rightarrow> ascii ''Infinity''
      | NegInf \<Rightarrow> ascii ''-Infinity''
      | Fin q \<Rightarrow>
          if q = 0 then [48]
          else if q < 0 then 45 # pos_to_string (- q)
          else pos_to_string q)"


section \<open>The reward pool parser\<close>

text \<open>
  \<^verbatim>\<open>parseDropKeys\<close> (server.mjs, lines 20 to 41). The regular expression
  \<^verbatim>\<open>/^(\d+)\s*-\s*(\d+)$/\<close> is matched by \<open>match_range\<close>, which returns the two
  captured groups: its three classes are disjoint, so the match is deterministic.
\<close>

definition match_range :: "jsstring \<Rightarrow> (jsstring \<times> jsstring) option" where
  "match_range t =
     (let a = takeWhile is_digit t;
          r = dropWhile is_ws (dropWhile is_digit t)
      in case r of [] \<Rightarrow> None
         | c # r' \<Rightarrow>
             (let b = dropWhile is_ws r'
              in if a \<noteq> [] \<and> c = 45 \<and> b \<noteq> [] \<and> list_all is_digit b
                 then Some (a, b) else None))"

text \<open>
  The \<^verbatim>\<open>Set\<close> \<open>out\<close> keeps insertion order and holds finite numbers only (each
  \<^verbatim>\<open>add\<close> is guarded by \<^verbatim>\<open>Number.isFinite\<close>), so it is a duplicate-free list of
  rationals.
\<close>

definition set_add :: "rat list \<Rightarrow> rat \<Rightarrow> rat list" where
  "set_add out x = (if x \<in> set out then out else out @ [x])"

text \<open>
  \<^verbatim>\<open>for (let x = a; x <= b; x++) out.add(x)\<close>. The counter is exact here, so the loop
  always ends. The program's counter is a binary64, which \<^verbatim>\<open>x++\<close> no longer changes from
  \<open>2^53\<close> on: bounds of that size are outside what this model describes.
\<close>

function range_loop :: "rat \<Rightarrow> rat \<Rightarrow> rat list \<Rightarrow> rat list" where
  "range_loop x b out = (if x \<le> b then range_loop (x + 1) b (set_add out x) else out)"
  by pat_completeness auto
termination
proof (relation "measure (\<lambda>(x, b, out). nat (\<lfloor>b - x\<rfloor> + 1))")
  show "wf (measure (\<lambda>(x, b, out). nat (\<lfloor>b - x\<rfloor> + 1)))"
    by simp
next
  fix x b :: rat and out :: "rat list"
  assume "x \<le> b"
  then have "0 \<le> \<lfloor>b - x\<rfloor>"
    by simp
  moreover have "\<lfloor>b - (x + 1)\<rfloor> = \<lfloor>b - x\<rfloor> - 1"
    by (simp add: diff_diff_eq [symmetric])
  ultimately show "((x + 1, b, set_add out x), (x, b, out))
      \<in> measure (\<lambda>(x, b, out). nat (\<lfloor>b - x\<rfloor> + 1))"
    by simp
qed

declare range_loop.simps [simp del]

text \<open>The body of the loop over the chunks, from the set before to the set after.\<close>

definition chunk_step :: "rat list \<Rightarrow> jsstring \<Rightarrow> rat list" where
  "chunk_step out chunk =
     (let t = trim chunk in
      if t = [] then out
      else (case match_range t of
              Some (m1, m2) \<Rightarrow>
                (let a = StringToNumber m1; b = StringToNumber m2 in
                 if isFinite a \<and> isFinite b
                 then (case (a, b) of
                         (Fin a', Fin b') \<Rightarrow> if a' \<le> b' then range_loop a' b' out else out
                       | _ \<Rightarrow> out)
                 else out)
            | None \<Rightarrow>
                (let n = StringToNumber t in
                 if isFinite n then (case n of Fin n' \<Rightarrow> set_add out n' | _ \<Rightarrow> out) else out)))"

text \<open>
  The argument is \<^verbatim>\<open>process.env.DROP_KEYS\<close>: a string, or \<open>None\<close> for
  \<^verbatim>\<open>undefined\<close>, which \<^verbatim>\<open>String(s || '')\<close> turns into the empty string. The result is
  the array \<^verbatim>\<open>Array.from(out).sort((x, y) => x - y)\<close>.
\<close>

definition parseDropKeys :: "jsstring option \<Rightarrow> rat list" where
  "parseDropKeys s =
     sort (foldl chunk_step [] (split_on is_sep (case s of None \<Rightarrow> [] | Some s' \<Rightarrow> s')))"

section \<open>Values, coercions and exceptions\<close>

text \<open>
  The values that request bodies and upstream responses are made of: what
  \<^verbatim>\<open>JSON.parse\<close> and the body parsers produce, and \<^verbatim>\<open>undefined\<close>. An object is the
  list of its own properties.
\<close>

datatype jsval =
    Undefined
  | Null
  | Bool bool
  | Num jsnum
  | Str jsstring
  | Arr "jsval list"
  | Obj "(jsstring \<times> jsval) list"

text \<open>Truthiness, as \<^verbatim>\<open>!v\<close>, \<^verbatim>\<open>v || w\<close> and \<^verbatim>\<open>c ? a : b\<close> test it.\<close>

definition truthy :: "jsval \<Rightarrow> bool" where
  "truthy v =
     (case v of
        Undefined \<Rightarrow> False
      | Null \<Rightarrow> False
      | Bool b \<Rightarrow> b
      | Num n \<Rightarrow> (case n of NaN \<Rightarrow> False | Fin q \<Rightarrow> q \<noteq> 0 | _ \<Rightarrow> True)
      | Str s \<Rightarrow> s \<noteq> []
      | _ \<Rightarrow> True)"

text \<open>
  Reading a property, for the names this program reads: \<open>length\<close> of a string or an
  array, and an own property of an object; every other read gives \<^verbatim>\<open>undefined\<close>. On
  \<^verbatim>\<open>undefined\<close> and \<^verbatim>\<open>null\<close> this is the optional read \<^verbatim>\<open>v?.k\<close>; the plain read
  \<^verbatim>\<open>v.k\<close> raises there, which \<open>get_prop\<close> adds.
\<close>

definition read_prop :: "jsval \<Rightarrow> jsstring \<Rightarrow> jsval" where
  "read_prop v k =
     (case v of
        Obj kvs \<Rightarrow> (case map_of kvs k of Some x \<Rightarrow> x | None \<Rightarrow> Undefined)
      | Str s \<Rightarrow> if k = ascii ''length'' then Num (Fin (of_nat (length s))) else Undefined
      | Arr xs \<Rightarrow> if k = ascii ''length'' then Num (Fin (of_nat (length xs))) else Undefined
      | _ \<Rightarrow> Undefined)"

text \<open>
  Strict equality \<^verbatim>\<open>===\<close>. Two objects or arrays are equal only when they are the same
  object; the program compares a value of the request with a value of a response, or a
  value with a literal, so they never are.
\<close>

fun strict_eq :: "jsval \<Rightarrow> jsval \<Rightarrow> bool" where
  "strict_eq Undefined Undefined = True"
| "strict_eq Null Null = True"
| "strict_eq (Bool a) (Bool b) = (a = b)"
| "strict_eq (Num a) (Num b) = (a \<noteq> NaN \<and> a = b)"
| "strict_eq (Str a) (Str b) = (a = b)"
| "strict_eq _ _ = False"

text \<open>
  A thrown error: its \<open>name\<close>, its \<open>message\<close> and, for a rejected HTTP call that got a
  response, the status code \<open>e.response.status\<close>. The message of a \<open>TypeError\<close> is the
  engine's; the texts below are those of V8, the engine of Node.js (\<open>39\<close> is the
  apostrophe), and no property proved here depends on them.
\<close>

datatype exn = Exn (exn_name: jsstring) (exn_message: jsstring) (exn_status: "nat option")

definition TypeError :: "jsstring \<Rightarrow> exn" where
  "TypeError msg = Exn (ascii ''TypeError'') msg None"

definition cannot_read :: "string \<Rightarrow> jsstring \<Rightarrow> jsstring" where
  "cannot_read what k =
     ascii ''Cannot read properties of '' @ ascii what @ ascii '' (reading '' @ 39 # k @ 39 # ascii '')''"

definition cannot_destructure :: "string \<Rightarrow> string \<Rightarrow> jsstring" where
  "cannot_destructure k what =
     ascii ''Cannot destructure property '' @ 39 # ascii k @ 39 # ascii '' of ''
       @ 39 # ascii ''req.body'' @ 39 # ascii '' as it is '' @ ascii what @ ascii ''.''"

definition get_prop :: "jsval \<Rightarrow> jsstring \<Rightarrow> exn + jsval" where
  "get_prop v k =
     (if v = Undefined then Inl (TypeError (cannot_read ''undefined'' k))
      else if v = Null then Inl (TypeError (cannot_read ''null'' k))
      else Inr (read_prop v k))"

text \<open>
  \<^verbatim>\<open>String(v)\<close>. An array is joined with commas, \<^verbatim>\<open>undefined\<close> and \<^verbatim>\<open>null\<close> elements
  as empty strings. An object has no callable own property, so an own \<open>toString\<close>
  shadows the inherited method and the conversion raises; otherwise it is
  \<^verbatim>\<open>[object Object]\<close>.
\<close>

fun ToString :: "jsval \<Rightarrow> exn + jsstring"
  and join_elems :: "jsval list \<Rightarrow> exn + jsstring" where
  "ToString Undefined = Inr (ascii ''undefined'')"
| "ToString Null = Inr (ascii ''null'')"
| "ToString (Bool b) = Inr (if b then ascii ''true'' else ascii ''false'')"
| "ToString (Num n) = Inr (NumberToString n)"
| "ToString (Str s) = Inr s"
| "ToString (Arr xs) = join_elems xs"
| "ToString (Obj kvs) =
     (if ascii ''toString'' \<in> fst ` set kvs
      then Inl (TypeError (ascii ''Cannot convert object to primitive value''))
      else Inr (ascii ''[object Object]''))"
| "join_elems [] = Inr []"
| "join_elems (x # xs) =
     (case (if x = Undefined \<or> x = Null then Inr [] else ToString x) of
        Inl e \<Rightarrow> Inl e
      | Inr s \<Rightarrow>
          (case join_elems xs of
             Inl e \<Rightarrow> Inl e
           | Inr r \<Rightarrow> Inr (if xs = [] then s else s @ 44 # r)))"

text \<open>\<^verbatim>\<open>Number(v)\<close>: an array or object is converted through its string.\<close>

definition ToNumber :: "jsval \<Rightarrow> exn + jsnum" where
  "ToNumber v =
     (case v of
        Undefined \<Rightarrow> Inr NaN
      | Null \<Rightarrow> Inr (Fin 0)
      | Bool b \<Rightarrow> Inr (Fin (if b then 1 else 0))
      | Num n \<Rightarrow> Inr n
      | Str s \<Rightarrow> Inr (StringToNumber s)
      | _ \<Rightarrow> (case ToString v of Inl e \<Rightarrow> Inl e | Inr s \<Rightarrow> Inr (StringToNumber s)))"

text \<open>The comparison \<^verbatim>\<open>v > 0\<close>: \<open>v\<close> is converted to a number, and NaN compares false.\<close>

definition gt_zero :: "jsval \<Rightarrow> exn + bool" where
  "gt_zero v =
     (case ToNumber v of
        Inl e \<Rightarrow> Inl e
      | Inr n \<Rightarrow> Inr (case n of Fin q \<Rightarrow> 0 < q | PosInf \<Rightarrow> True | _ \<Rightarrow> False))"

text \<open>\<^verbatim>\<open>String(e)\<close> for an error: \<open>name: message\<close>, or the one that is not empty.\<close>

definition error_to_string :: "exn \<Rightarrow> jsstring" where
  "error_to_string e =
     (if exn_name e = [] then exn_message e
      else if exn_message e = [] then exn_name e
      else exn_name e @ ascii '': '' @ exn_message e)"

definition opt_val :: "jsval option \<Rightarrow> jsval" where
  "opt_val v = (case v of None \<Rightarrow> Undefined | Some x \<Rightarrow> x)"


section \<open>Configuration and the world outside\<close>

text \<open>
  The process environment, read once at startup (server.mjs, lines 14 to 16, 43 and 46):
  each variable is a string or absent.
\<close>

record environment =
  env_APPID :: "jsstring option"
  env_PUBLISHER_KEY :: "jsstring option"
  env_DROP_KEYS :: "jsstring option"
  env_ENABLE_LIMITER :: "jsstring option"

definition APPID :: "environment \<Rightarrow> jsnum" where
  "APPID env = (case env_APPID env of None \<Rightarrow> NaN | Some s \<Rightarrow> StringToNumber s)"

definition PUBLISHER_KEY :: "environment \<Rightarrow> jsval" where
  "PUBLISHER_KEY env = (case env_PUBLISHER_KEY env of None \<Rightarrow> Undefined | Some s \<Rightarrow> Str s)"

definition DROP_KEYS :: "environment \<Rightarrow> rat list" where
  "DROP_KEYS env = parseDropKeys (env_DROP_KEYS env)"

text \<open>
  \<^verbatim>\<open>String(process.env.ENABLE_LIMITER || 'false').toLowerCase() === 'true'\<close>. Only the
  letters A to Z have a lower case among the letters of \<^verbatim>\<open>true\<close>, so the ASCII mapping
  decides the comparison.
\<close>

definition toLowerCase :: "jsstring \<Rightarrow> jsstring" where
  "toLowerCase s = map (\<lambda>c. if 65 \<le> c \<and> c \<le> 90 then c + 32 else c) s"

definition ENABLE_LIMITER :: "environment \<Rightarrow> bool" where
  "ENABLE_LIMITER env =
     (toLowerCase (case env_ENABLE_LIMITER env of
                     None \<Rightarrow> ascii ''false''
                   | Some s \<Rightarrow> if s = [] then ascii ''false'' else s)
      = ascii ''true'')"

text \<open>
  The two upstream services, as the program sees them through \<^verbatim>\<open>axios\<close>: a call
  resolves with the response data or rejects with an error. The identity service gets the
  query parameters \<open>key\<close>, \<open>appid\<close> and \<open>ticket\<close>, the inventory service a form of
  name and value pairs. \<^verbatim>\<open>JSON.parse\<close> (\<open>None\<close> when it raises) and the draw of
  \<^verbatim>\<open>Math.random()\<close> are taken from the runtime as well.
\<close>

record verify_params =
  vp_key :: jsval
  vp_appid :: jsval
  vp_ticket :: jsval

type_synonym form = "(jsstring \<times> jsstring) list"

datatype call = IdentityCall verify_params | InventoryCall form

record runtime =
  identity_service :: "verify_params \<Rightarrow> exn + jsval"
  inventory_service :: "form \<Rightarrow> exn + jsval"
  JSON_parse :: "jsstring \<Rightarrow> jsval option"
  Math_random :: rat

text \<open>
  \<^verbatim>\<open>pickRandom\<close> (line 53). \<^verbatim>\<open>Math.random()\<close> is a number \<open>r\<close> with \<open>0 \<le> r < 1\<close>;
  reading an array outside its bounds gives \<^verbatim>\<open>undefined\<close>.
\<close>

definition pickRandom :: "rat list \<Rightarrow> rat \<Rightarrow> jsval" where
  "pickRandom arr r =
     (let i = \<lfloor>r * of_nat (length arr)\<rfloor>
      in if 0 \<le> i \<and> i < int (length arr) then Num (Fin (arr ! nat i)) else Undefined)"


section \<open>The two upstream calls\<close>

text \<open>
  The result objects. A field that the returned object literal does not have is
  \<open>None\<close>; reading it gives \<^verbatim>\<open>undefined\<close>.
\<close>

record verification =
  v_ok :: bool
  v_steamid :: "jsval option"
  v_reason :: "jsstring option"
  v_raw :: "jsval option"

record grant =
  g_ok :: bool
  g_items :: jsval
  g_raw :: jsval

text \<open>
  \<^verbatim>\<open>verifyTicket\<close> (lines 57 to 69). Each call returns its outcome, a result or the error
  thrown, and the upstream calls it made.
\<close>

definition verifyTicket ::
  "environment \<Rightarrow> runtime \<Rightarrow> jsval \<Rightarrow> jsval \<Rightarrow> jsval \<Rightarrow> (exn + verification) \<times> call list" where
  "verifyTicket env rt appid ticket steamid =
     (let params = \<lparr>vp_key = PUBLISHER_KEY env, vp_appid = appid, vp_ticket = ticket\<rparr>
      in case identity_service rt params of
           Inl e \<Rightarrow> (Inl e, [IdentityCall params])
         | Inr data \<Rightarrow>
             (let p = read_prop (read_prop data (ascii ''response'')) (ascii ''params'');
                  ok = strict_eq (read_prop p (ascii ''result'')) (Str (ascii ''OK''));
                  authedSteamId = read_prop p (ascii ''steamid'')
              in (Inr (if ok \<and> (\<not> truthy steamid \<or> strict_eq steamid authedSteamId)
                       then \<lparr>v_ok = True, v_steamid = Some authedSteamId,
                             v_reason = None, v_raw = None\<rparr>
                       else \<lparr>v_ok = False, v_steamid = None,
                             v_reason = Some (if ok then ascii ''steamid_mismatch''
                                              else ascii ''auth_failed''),
                             v_raw = Some data\<rparr>),
                  [IdentityCall params])))"

text \<open>
  \<^verbatim>\<open>grantItem\<close> (lines 71 to 97). The form is built first: \<^verbatim>\<open>append\<close> stringifies the
  key, and the four \<^verbatim>\<open>String(...)\<close> conversions can raise before anything is sent.
  \<open>resp\<close> is truthy, so reading its properties does not raise; \<open>items.length\<close> does
  when the parsed value is \<^verbatim>\<open>null\<close>.
\<close>

definition grant_form :: "environment \<Rightarrow> jsval \<Rightarrow> jsval \<Rightarrow> jsval \<Rightarrow> jsval \<Rightarrow> exn + form" where
  "grant_form env appid steamid itemdefid quantity =
     (case ToString (PUBLISHER_KEY env) of Inl e \<Rightarrow> Inl e | Inr k \<Rightarrow>
      case ToString appid of Inl e \<Rightarrow> Inl e | Inr a \<Rightarrow>
      case ToString steamid of Inl e \<Rightarrow> Inl e | Inr s \<Rightarrow>
      case ToString itemdefid of Inl e \<Rightarrow> Inl e | Inr i \<Rightarrow>
      case ToString quantity of Inl e \<Rightarrow> Inl e | Inr q \<Rightarrow>
        Inr [(ascii ''key'', k), (ascii ''appid'', a), (ascii ''steamid'', s),
             (ascii ''itemdefid[0]'', i), (ascii ''quantity[0]'', q)])"

definition grant_result :: "runtime \<Rightarrow> jsval \<Rightarrow> exn + grant" where
  "grant_result rt data =
     (let r = read_prop data (ascii ''response'');
          resp = (if truthy r then r else Obj []);
          ok = (strict_eq (read_prop resp (ascii ''result'')) (Num (Fin 1))
                \<or> strict_eq (read_prop resp (ascii ''success'')) (Bool True))
      in case read_prop resp (ascii ''item_json'') of
           Str js \<Rightarrow>
             (let items = (case JSON_parse rt js of Some v \<Rightarrow> v | None \<Rightarrow> Arr [])
              in case get_prop items (ascii ''length'') of
                   Inl e \<Rightarrow> Inl e
                 | Inr len \<Rightarrow>
                     (case gt_zero len of
                        Inl e \<Rightarrow> Inl e
                      | Inr b \<Rightarrow> Inr \<lparr>g_ok = (ok \<or> b), g_items = items, g_raw = data\<rparr>))
         | _ \<Rightarrow> Inr \<lparr>g_ok = ok, g_items = Arr [], g_raw = data\<rparr>)"

definition grantItem ::
  "environment \<Rightarrow> runtime \<Rightarrow> jsval \<Rightarrow> jsval \<Rightarrow> jsval \<Rightarrow> jsval \<Rightarrow> (exn + grant) \<times> call list" where
  "grantItem env rt appid steamid itemdefid quantity =
     (case grant_form env appid steamid itemdefid
             (if quantity = Undefined then Num (Fin 1) else quantity) of
        Inl e \<Rightarrow> (Inl e, [])
      | Inr form \<Rightarrow>
          (case inventory_service rt form of
             Inl e \<Rightarrow> (Inl e, [InventoryCall form])
           | Inr data \<Rightarrow> (grant_result rt data, [InventoryCall form])))"


section \<open>The routes\<close>

text \<open>
  A response is a status code and the object given to \<^verbatim>\<open>res.json\<close> (a property whose
  value is \<^verbatim>\<open>undefined\<close> is dropped when the object is serialised).
\<close>

record response =
  status :: nat
  body :: jsval

definition json :: "nat \<Rightarrow> (string \<times> jsval) list \<Rightarrow> response" where
  "json code kvs = \<lparr>status = code, body = Obj (map (\<lambda>(k, v). (ascii k, v)) kvs)\<rparr>"

text \<open>\<^verbatim>\<open>GET /health\<close> (lines 101 to 110); \<open>8230\<close> is the ellipsis U+2026.\<close>

definition health :: "environment \<Rightarrow> response" where
  "health env =
     json 200
       [(''ok'', Bool True),
        (''appid'', Num (APPID env)),
        (''drop_keys'', Arr (map (\<lambda>x. Num (Fin x)) (DROP_KEYS env))),
        (''has_key'', Bool (truthy (PUBLISHER_KEY env))),
        (''key_prefix'',
           if truthy (PUBLISHER_KEY env)
           then (case PUBLISHER_KEY env of Str k \<Rightarrow> Str (take 6 k @ [8230]) | _ \<Rightarrow> Null)
           else Null),
        (''limiter_enabled'', Bool (ENABLE_LIMITER env))]"

text \<open>
  The \<^verbatim>\<open>catch\<close> blocks: \<^verbatim>\<open>e?.response?.status || e?.message\<close>, and for
  \<^verbatim>\<open>/open-chest\<close> a further \<^verbatim>\<open>|| String(e)\<close>.
\<close>

definition status_val :: "exn \<Rightarrow> jsval" where
  "status_val e = (case exn_status e of None \<Rightarrow> Undefined | Some n \<Rightarrow> Num (Fin (of_nat n)))"

definition error_details :: "exn \<Rightarrow> jsval" where
  "error_details e = (if truthy (status_val e) then status_val e else Str (exn_message e))"

definition server_error :: "exn \<Rightarrow> response" where
  "server_error e = json 500 [(''error'', Str (ascii ''server_error'')), (''details'', error_details e)]"

definition server_error_chest :: "exn \<Rightarrow> response" where
  "server_error_chest e =
     json 500
       [(''error'', Str (ascii ''server_error'')),
        (''details'',
           if truthy (error_details e) then error_details e else Str (error_to_string e))]"

text \<open>
  Destructuring \<^verbatim>\<open>req.body\<close> raises when the body is \<^verbatim>\<open>undefined\<close> or \<^verbatim>\<open>null\<close>, and
  reads properties otherwise; \<open>k\<close> is the first property of the pattern, which the
  message names.
\<close>

definition destructure :: "string \<Rightarrow> jsval \<Rightarrow> exn + jsval" where
  "destructure k b =
     (if b = Undefined then Inl (TypeError (cannot_destructure k ''undefined''))
      else if b = Null then Inl (TypeError (cannot_destructure k ''null''))
      else Inr b)"

text \<open>\<^verbatim>\<open>POST /verify-only\<close> (lines 113 to 125): the \<^verbatim>\<open>try\<close> block, then the handler.\<close>

definition verify_only_try :: "environment \<Rightarrow> runtime \<Rightarrow> jsval \<Rightarrow> (exn + response) \<times> call list" where
  "verify_only_try env rt req_body =
     (case destructure ''appid'' req_body of
        Inl e \<Rightarrow> (Inl e, [])
      | Inr b \<Rightarrow>
          (let appid = (if read_prop b (ascii ''appid'') = Undefined then Num (APPID env)
                        else read_prop b (ascii ''appid''));
               steamid = read_prop b (ascii ''steamid'');
               ticket = read_prop b (ascii ''ticket'')
           in if \<not> truthy appid \<or> \<not> truthy steamid \<or> \<not> truthy ticket
              then (Inr (json 400 [(''error'', Str (ascii ''missing_fields''))]), [])
              else (case ToNumber appid of
                      Inl e \<Rightarrow> (Inl e, [])
                    | Inr n \<Rightarrow>
                        (case verifyTicket env rt (Num n) ticket steamid of
                           (Inl e, calls) \<Rightarrow> (Inl e, calls)
                         | (Inr v, calls) \<Rightarrow>
                             if \<not> v_ok v
                             then (Inr (json 401 [(''ok'', Bool False),
                                                  (''reason'', opt_val (map_option Str (v_reason v))),
                                                  (''raw'', opt_val (v_raw v))]), calls)
                             else (Inr (json 200 [(''ok'', Bool True),
                                                  (''steamid'', opt_val (v_steamid v))]), calls)))))"

definition verify_only :: "environment \<Rightarrow> runtime \<Rightarrow> jsval \<Rightarrow> response \<times> call list" where
  "verify_only env rt req_body =
     (case verify_only_try env rt req_body of
        (Inl e, calls) \<Rightarrow> (server_error e, calls)
      | (Inr res, calls) \<Rightarrow> (res, calls))"

text \<open>\<^verbatim>\<open>POST /grant-only\<close> (lines 128 to 142).\<close>

definition grant_only_try :: "environment \<Rightarrow> runtime \<Rightarrow> jsval \<Rightarrow> (exn + response) \<times> call list" where
  "grant_only_try env rt req_body =
     (case destructure ''steamid'' req_body of
        Inl e \<Rightarrow> (Inl e, [])
      | Inr b \<Rightarrow>
          (let steamid = read_prop b (ascii ''steamid'');
               itemdefid = read_prop b (ascii ''itemdefid'')
           in if \<not> truthy steamid \<or> \<not> truthy itemdefid
              then (Inr (json 400 [(''error'', Str (ascii ''missing_fields''))]), [])
              else if \<not> truthy (PUBLISHER_KEY env)
              then (Inr (json 500 [(''error'', Str (ascii ''missing_publisher_key''))]), [])
              else (case ToNumber itemdefid of
                      Inl e \<Rightarrow> (Inl e, [])
                    | Inr n \<Rightarrow>
                        (case grantItem env rt (Num (APPID env)) steamid (Num n) (Num (Fin 1)) of
                           (Inl e, calls) \<Rightarrow> (Inl e, calls)
                         | (Inr g, calls) \<Rightarrow>
                             if \<not> g_ok g
                             then (Inr (json 502 [(''ok'', Bool False),
                                                  (''reason'', Str (ascii ''grant_failed'')),
                                                  (''raw'', g_raw g)]), calls)
                             else (Inr (json 200 [(''ok'', Bool True),
                                                  (''granted'', g_items g),
                                                  (''raw'', g_raw g)]), calls)))))"

definition grant_only :: "environment \<Rightarrow> runtime \<Rightarrow> jsval \<Rightarrow> response \<times> call list" where
  "grant_only env rt req_body =
     (case grant_only_try env rt req_body of
        (Inl e, calls) \<Rightarrow> (server_error e, calls)
      | (Inr res, calls) \<Rightarrow> (res, calls))"

text \<open>
  \<^verbatim>\<open>POST /open-chest\<close> (lines 145 to 170). \<^verbatim>\<open>limiter.consume\<close> is the no-op of line 49:
  it resolves and changes nothing.
\<close>

definition open_chest_try :: "environment \<Rightarrow> runtime \<Rightarrow> jsval \<Rightarrow> (exn + response) \<times> call list" where
  "open_chest_try env rt req_body =
     (case destructure ''appid'' req_body of
        Inl e \<Rightarrow> (Inl e, [])
      | Inr b \<Rightarrow>
          (let appid = read_prop b (ascii ''appid'');
               steamid = read_prop b (ascii ''steamid'');
               ticket = read_prop b (ascii ''ticket'')
           in if \<not> truthy appid \<or> \<not> truthy steamid \<or> \<not> truthy ticket
              then (Inr (json 400 [(''error'', Str (ascii ''missing_fields''))]), [])
              else if \<not> truthy (PUBLISHER_KEY env)
              then (Inr (json 500 [(''error'', Str (ascii ''missing_publisher_key''))]), [])
              else if length (DROP_KEYS env) = 0
              then (Inr (json 500 [(''error'', Str (ascii ''server_not_configured''))]), [])
              else (case ToNumber appid of
                      Inl e \<Rightarrow> (Inl e, [])
                    | Inr n \<Rightarrow>
                        (case verifyTicket env rt (Num n) ticket steamid of
                           (Inl e, calls) \<Rightarrow> (Inl e, calls)
                         | (Inr v, calls) \<Rightarrow>
                             if \<not> v_ok v
                             then (Inr (json 401
                                     [(''error'',
                                         if truthy (opt_val (map_option Str (v_reason v)))
                                         then opt_val (map_option Str (v_reason v))
                                         else Str (ascii ''auth_failed'')),
                                      (''raw'', opt_val (v_raw v))]), calls)
                             else
                               (let keyDefId = pickRandom (DROP_KEYS env) (Math_random rt)
                                in case grantItem env rt (Num (APPID env)) steamid keyDefId
                                          (Num (Fin 1)) of
                                     (Inl e, calls') \<Rightarrow> (Inl e, calls @ calls')
                                   | (Inr g, calls') \<Rightarrow>
                                       if \<not> g_ok g
                                       then (Inr (json 502 [(''error'', Str (ascii ''grant_failed'')),
                                                            (''raw'', g_raw g)]), calls @ calls')
                                       else (Inr (json 200 [(''ok'', Bool True),
                                                            (''itemdefid'', keyDefId),
                                                            (''grant'', g_raw g)]),
                                             calls @ calls'))))))"

definition open_chest :: "environment \<Rightarrow> runtime \<Rightarrow> jsval \<Rightarrow> response \<times> call list" where
  "open_chest env rt req_body =
     (case open_chest_try env rt req_body of
        (Inl e, calls) \<Rightarrow> (server_error_chest e, calls)
      | (Inr res, calls) \<Rightarrow> (res, calls))"

section \<open>A sample configuration and runtime\<close>

text \<open>
  Concrete inputs for the examples below: the pool of the source comment, an identity
  service that accepts the ticket for a fixed user, an inventory service that reports
  the grant, and a decoder that agrees with \<^verbatim>\<open>JSON.parse\<close> on the three texts it
  decodes (the examples give it no other text).
\<close>

definition sample_env :: environment where
  "sample_env =
     \<lparr>env_APPID = Some (ascii ''480''),
      env_PUBLISHER_KEY = Some (ascii ''0123456789ABCDEF''),
      env_DROP_KEYS = Some (ascii ''10001,10002;10003-10010,10050''),
      env_ENABLE_LIMITER = None\<rparr>"

definition steam_ok :: jsval where
  "steam_ok =
     Obj [(ascii ''response'',
           Obj [(ascii ''params'',
                 Obj [(ascii ''result'', Str (ascii ''OK'')),
                      (ascii ''steamid'', Str (ascii ''76561198000000001''))])])]"

definition sample_JSON_parse :: "jsstring \<Rightarrow> jsval option" where
  "sample_JSON_parse s =
     (if s = ascii ''null'' then Some Null
      else if s = ascii ''[]'' then Some (Arr [])
      else if s = ascii ''[{}]'' then Some (Arr [Obj []])
      else None)"

definition sample_rt :: runtime where
  "sample_rt =
     \<lparr>identity_service = (\<lambda>p. Inr steam_ok),
      inventory_service = (\<lambda>f. Inr (Obj [(ascii ''response'', Obj [(ascii ''result'', Num (Fin 1))])])),
      JSON_parse = sample_JSON_parse,
      Math_random = 1 / 2\<rparr>"

definition chest_request :: "string \<Rightarrow> jsval" where
  "chest_request appid =
     Obj [(ascii ''appid'', Str (ascii appid)),
          (ascii ''steamid'', Str (ascii ''76561198000000001'')),
          (ascii ''ticket'', Str (ascii ''14000000abcdef''))]"

text \<open>
  Two ways an upstream call fails: a response with an error status, which \<^verbatim>\<open>axios\<close>
  rejects with the status attached, and no response at all. And an inventory response
  that reports success and whose \<open>item_json\<close> is the JSON text \<^verbatim>\<open>null\<close>.
\<close>

definition upstream_503 :: exn where
  "upstream_503 =
     Exn (ascii ''AxiosError'') (ascii ''Request failed with status code 503'') (Some 503)"

definition network_error :: exn where
  "network_error = Exn (ascii ''AxiosError'') (ascii ''Network Error'') None"

definition null_items_response :: jsval where
  "null_items_response =
     Obj [(ascii ''response'',
           Obj [(ascii ''result'', Num (Fin 1)),
                (ascii ''item_json'', Str (ascii ''null''))])]"

definition grant_request :: jsval where
  "grant_request =
     Obj [(ascii ''steamid'', Str (ascii ''76561198000000001'')),
          (ascii ''itemdefid'', Str (ascii ''10001''))]"

section \<open>Notions used in the proofs\<close>







section \<open>Properties of the parser\<close>

text \<open>The simplification rules that evaluate the parser on a literal.\<close>

lemmas lit_eval = ascii_def is_digit_def is_ws_def is_sep_def trim_def round_mv_def MAX_ROUND_def
  isFinite_def jsnum_neg_def digit_val_def is_hex_def radix_val_def pow10_def digits_opt_def
  signed_integer_def exponent_part_def unsigned_decimal_def str_decimal_def non_decimal_def
  StringToNumber_def match_range_def set_add_def chunk_step_def parseDropKeys_def Let_def
  range_loop.simps


























section \<open>Properties of the number conversions\<close>







lemma radix_val_Nil: "radix_val b [] = 0"
  by (simp add: radix_val_def)
















lemma pow10_powi: "pow10 e = 10 powi e"
  by (simp add: pow10_def power_int_def power_one_over inverse_eq_divide)

lemma pow10_add: "pow10 (a + b) = pow10 a * pow10 b"
  by (simp add: pow10_powi power_int_add)

lemma pow10_nat: "pow10 (int m) = 10 ^ m"
  by (simp add: pow10_def)




































section \<open>Idempotence of the parser\<close>


















section \<open>Properties of the upstream calls and the routes\<close>

text \<open>The simplification rules that evaluate a route on literal inputs.\<close>

lemmas route_eval = read_prop_def truthy_def get_prop_def TypeError_def cannot_read_def
  cannot_destructure_def ToNumber_def gt_zero_def
  error_to_string_def opt_val_def APPID_def PUBLISHER_KEY_def DROP_KEYS_def toLowerCase_def
  ENABLE_LIMITER_def pickRandom_def verifyTicket_def grant_form_def grant_result_def
  grantItem_def json_def health_def status_val_def error_details_def server_error_def
  server_error_chest_def destructure_def verify_only_try_def verify_only_def
  grant_only_try_def grant_only_def open_chest_try_def open_chest_def
  sample_env_def steam_ok_def sample_JSON_parse_def sample_rt_def chest_request_def
  upstream_503_def network_error_def null_items_response_def grant_request_def

lemmas number_eval = NumberToString_def pos_to_string_def format_digits_def nat_digits.simps
  strip_factor.simps

lemma strict_eq_Str: "strict_eq v (Str s) \<longleftrightarrow> v = Str s"
  by (cases v) auto

text \<open>
  C3. When the identity service answers, \<^verbatim>\<open>verifyTicket\<close> returns a result, and the result
  is a success exactly when the service's \<open>result\<close> is the string \<^verbatim>\<open>OK\<close> and the
  claimed steamid is falsy (none was supplied) or strictly equal to the steamid the
  service returned. Any other result is a failure whose reason is
  \<^verbatim>\<open>steamid_mismatch\<close> when the service said \<^verbatim>\<open>OK\<close> and \<^verbatim>\<open>auth_failed\<close> otherwise.
\<close>

theorem verifyTicket_success_iff:
  assumes "identity_service rt \<lparr>vp_key = PUBLISHER_KEY env, vp_appid = appid, vp_ticket = ticket\<rparr>
             = Inr data"
  shows "\<exists>v. fst (verifyTicket env rt appid ticket steamid) = Inr v
     \<and> (v_ok v \<longleftrightarrow>
          read_prop (read_prop (read_prop data (ascii ''response'')) (ascii ''params''))
            (ascii ''result'') = Str (ascii ''OK'')
          \<and> (\<not> truthy steamid
               \<or> strict_eq steamid
                    (read_prop (read_prop (read_prop data (ascii ''response'')) (ascii ''params''))
                       (ascii ''steamid''))))
     \<and> (\<not> v_ok v \<longrightarrow>
          v_reason v =
            Some (if read_prop (read_prop (read_prop data (ascii ''response'')) (ascii ''params''))
                       (ascii ''result'') = Str (ascii ''OK'')
                  then ascii ''steamid_mismatch'' else ascii ''auth_failed''))"
  using assms by (simp add: verifyTicket_def Let_def strict_eq_Str)

theorem verifyTicket_success_iff_witness:
  "\<exists>v. fst (verifyTicket sample_env sample_rt (Num (Fin 480)) (Str (ascii ''14000000abcdef''))
              (Str (ascii ''7''))) = Inr v
     \<and> \<not> v_ok v \<and> v_reason v = Some (ascii ''steamid_mismatch'')"
proof -
  have h: "identity_service sample_rt
      \<lparr>vp_key = PUBLISHER_KEY sample_env, vp_appid = Num (Fin 480),
        vp_ticket = Str (ascii ''14000000abcdef'')\<rparr> = Inr steam_ok"
    by (simp add: sample_rt_def)
  from verifyTicket_success_iff [OF h, of "Str (ascii ''7'')"] show ?thesis
    by (auto simp: steam_ok_def read_prop_def truthy_def ascii_def)
qed

text \<open>
  C5, as the specification states it, fails: the result of a successful verification is
  the object \<^verbatim>\<open>{ ok: true, steamid }\<close>, which has no \<open>raw\<close> property.
\<close>

theorem verifyTicket_raw_counterexample:
  "fst (verifyTicket sample_env sample_rt (Num (Fin 480)) (Str (ascii ''14000000abcdef''))
          (Str (ascii ''76561198000000001'')))
   = Inr \<lparr>v_ok = True, v_steamid = Some (Str (ascii ''76561198000000001'')),
          v_reason = None, v_raw = None\<rparr>"
  by (simp add: route_eval ascii_def)

text \<open>
  C5, as the code has it. A failure result of \<^verbatim>\<open>verifyTicket\<close> carries the raw
  upstream response, with a reason and no steamid; a success result is exactly
  \<^verbatim>\<open>{ ok: true, steamid }\<close> with the steamid the service returned: it has no
  \<open>raw\<close> and no \<open>reason\<close>.
\<close>

theorem verifyTicket_raw_on_failure:
  assumes "identity_service rt \<lparr>vp_key = PUBLISHER_KEY env, vp_appid = appid, vp_ticket = ticket\<rparr>
             = Inr data"
  shows "\<exists>v. fst (verifyTicket env rt appid ticket steamid) = Inr v
     \<and> (v_ok v \<longrightarrow>
          v = \<lparr>v_ok = True,
               v_steamid = Some (read_prop (read_prop (read_prop data (ascii ''response''))
                                              (ascii ''params'')) (ascii ''steamid'')),
               v_reason = None, v_raw = None\<rparr>)
     \<and> (\<not> v_ok v \<longrightarrow>
          v_raw v = Some data \<and> v_steamid v = None
          \<and> (v_reason v = Some (ascii ''steamid_mismatch'')
               \<or> v_reason v = Some (ascii ''auth_failed'')))"
  using assms by (simp add: verifyTicket_def Let_def)

theorem verifyTicket_raw_on_failure_witness:
  "\<exists>v. fst (verifyTicket sample_env sample_rt (Num (Fin 480)) (Str (ascii ''14000000abcdef''))
              (Str (ascii ''7''))) = Inr v
     \<and> \<not> v_ok v \<and> v_raw v = Some steam_ok"
proof -
  have h: "identity_service sample_rt
      \<lparr>vp_key = PUBLISHER_KEY sample_env, vp_appid = Num (Fin 480),
        vp_ticket = Str (ascii ''14000000abcdef'')\<rparr> = Inr steam_ok"
    by (simp add: sample_rt_def)
  have "\<not> v_ok v" if "fst (verifyTicket sample_env sample_rt (Num (Fin 480))
      (Str (ascii ''14000000abcdef'')) (Str (ascii ''7''))) = Inr v" for v
    using that by (auto simp: route_eval ascii_def)
  with verifyTicket_raw_on_failure [OF h, of "Str (ascii ''7'')"] show ?thesis
    by auto
qed

lemma truthy_read_prop: "truthy (read_prop b k) \<Longrightarrow> destructure k' b = Inr b"
  by (cases b) (simp_all add: destructure_def read_prop_def truthy_def)

text \<open>
  C6. When \<open>appid\<close>, \<open>steamid\<close> and \<open>ticket\<close> are present (truthy) in the body
  and the publisher key is set, an empty reward pool makes \<^verbatim>\<open>/open-chest\<close> answer 500
  \<^verbatim>\<open>server_not_configured\<close> with no upstream call made, whatever the identity and
  inventory services would have answered.
\<close>

theorem open_chest_empty_pool:
  assumes "truthy (read_prop b (ascii ''appid''))"
    and "truthy (read_prop b (ascii ''steamid''))"
    and "truthy (read_prop b (ascii ''ticket''))"
    and "truthy (PUBLISHER_KEY env)"
    and "DROP_KEYS env = []"
  shows "open_chest env rt b = (json 500 [(''error'', Str (ascii ''server_not_configured''))], [])"
  using assms by (simp add: open_chest_def open_chest_try_def truthy_read_prop)

theorem open_chest_empty_pool_witness:
  "open_chest (sample_env\<lparr>env_DROP_KEYS := Some (ascii ''abc, 50-10'')\<rparr>) sample_rt
     (chest_request ''480'')
   = (json 500 [(''error'', Str (ascii ''server_not_configured''))], [])"
proof (rule open_chest_empty_pool)
  show "DROP_KEYS (sample_env\<lparr>env_DROP_KEYS := Some (ascii ''abc, 50-10'')\<rparr>) = []"
    by (simp add: DROP_KEYS_def lit_eval)
qed (simp_all add: chest_request_def read_prop_def truthy_def ascii_def PUBLISHER_KEY_def
       sample_env_def)

lemma pickRandom_member:
  assumes "arr \<noteq> []" and "0 \<le> r" and "r < 1"
  shows "\<exists>x\<in>set arr. pickRandom arr r = Num (Fin x)"
proof -
  define n where "n = length arr"
  from assms have n: "0 < n" by (simp add: n_def)
  have "0 \<le> r * of_nat n" using assms by simp
  then have lo: "0 \<le> \<lfloor>r * of_nat n\<rfloor>" by simp
  have "r * of_nat n < 1 * of_nat n"
    using assms n by (intro mult_strict_right_mono) simp_all
  then have "r * of_nat n < of_int (int n)" by simp
  then have hi: "\<lfloor>r * of_nat n\<rfloor> < int n" by (simp only: floor_less_iff)
  from lo hi have "nat \<lfloor>r * of_nat n\<rfloor> < length arr" by (simp add: n_def nat_less_iff)
  then have "arr ! nat \<lfloor>r * of_nat n\<rfloor> \<in> set arr" by (rule nth_mem)
  moreover from lo hi have "pickRandom arr r = Num (Fin (arr ! nat \<lfloor>r * of_nat n\<rfloor>))"
    by (simp add: pickRandom_def n_def)
  ultimately show ?thesis by blast
qed

lemma status_json: "status (json c kvs) = c"
  by (simp add: json_def)

lemma status_server_error_chest: "status (server_error_chest e) = 500"
  by (simp add: server_error_chest_def json_def)

text \<open>
  C1. \<^verbatim>\<open>Math.random()\<close> returns a number \<open>r\<close> with \<open>0 \<le> r < 1\<close>. Whenever
  \<^verbatim>\<open>/open-chest\<close> answers with its success response, the only one with status 200, sent
  after verification and grant have both succeeded, the \<open>itemdefid\<close> of that response is
  a member of the configured reward pool. (The product \<open>r * length\<close> is taken exactly
  here; rounded to binary64 it stays below \<open>length\<close> as well.)
\<close>

theorem open_chest_itemdefid_in_pool:
  assumes "0 \<le> Math_random rt" and "Math_random rt < 1"
    and "status (fst (open_chest env rt b)) = 200"
  shows "\<exists>x\<in>set (DROP_KEYS env).
           read_prop (body (fst (open_chest env rt b))) (ascii ''itemdefid'') = Num (Fin x)"
proof -
  have "\<exists>x\<in>set (DROP_KEYS env). pickRandom (DROP_KEYS env) (Math_random rt) = Num (Fin x)"
    if "DROP_KEYS env \<noteq> []"
    using that assms(1,2) by (rule pickRandom_member)
  moreover have "read_prop (body (json 200 [(''ok'', Bool True), (''itemdefid'', k), (''grant'', g)]))
      (ascii ''itemdefid'') = k" for k g
    by (simp add: json_def read_prop_def ascii_def)
  ultimately show ?thesis
    using assms(3)
    by (auto simp: open_chest_def open_chest_try_def Let_def status_json
        status_server_error_chest split: sum.splits prod.splits if_splits)
qed


theorem open_chest_itemdefid_in_pool_witness:
  "\<exists>x\<in>set (DROP_KEYS sample_env).
     read_prop (body (fst (open_chest sample_env sample_rt (chest_request ''480''))))
       (ascii ''itemdefid'') = Num (Fin x)"
proof (rule open_chest_itemdefid_in_pool)
  show "status (fst (open_chest sample_env sample_rt (chest_request ''480''))) = 200"
    by (simp add: route_eval lit_eval number_eval)
qed (simp_all add: sample_rt_def)

text \<open>
  C8, as the specification states it, fails for a short key: a key of at most six
  characters is echoed whole, followed by the ellipsis.
\<close>

theorem health_key_prefix_counterexample:
  "read_prop (body (health (sample_env\<lparr>env_PUBLISHER_KEY := Some (ascii ''abc'')\<rparr>)))
     (ascii ''key_prefix'') = Str (ascii ''abc'' @ [8230])
   \<and> take 6 (ascii ''abc'') = ascii ''abc''"
  by (simp add: health_def json_def read_prop_def truthy_def PUBLISHER_KEY_def ascii_def)

text \<open>
  C8, as the code has it. When the publisher key is set (not empty), \<open>key_prefix\<close> is
  its first six characters followed by an ellipsis and \<open>has_key\<close> is true; for a key
  longer than six characters these six characters are not the whole key. When the key is
  absent or empty, \<open>key_prefix\<close> is \<^verbatim>\<open>null\<close> and \<open>has_key\<close> is false.
\<close>

theorem health_key_prefix:
  "(env_PUBLISHER_KEY env = Some k \<and> k \<noteq> [] \<longrightarrow>
      read_prop (body (health env)) (ascii ''key_prefix'') = Str (take 6 k @ [8230])
      \<and> read_prop (body (health env)) (ascii ''has_key'') = Bool True
      \<and> (6 < length k \<longrightarrow> length (take 6 k) = 6 \<and> take 6 k \<noteq> k))
   \<and> (env_PUBLISHER_KEY env = None \<or> env_PUBLISHER_KEY env = Some [] \<longrightarrow>
      read_prop (body (health env)) (ascii ''key_prefix'') = Null
      \<and> read_prop (body (health env)) (ascii ''has_key'') = Bool False)"
proof -
  have "take 6 k \<noteq> k" if "6 < length k"
  proof
    assume "take 6 k = k"
    then have "length (take 6 k) = length k" by simp
    with that show False by simp
  qed
  then show ?thesis
    by (auto simp: health_def json_def read_prop_def truthy_def PUBLISHER_KEY_def ascii_def)
qed

theorem health_key_prefix_witness:
  "read_prop (body (health sample_env)) (ascii ''key_prefix'') = Str (ascii ''012345'' @ [8230])
   \<and> read_prop (body (health sample_env)) (ascii ''has_key'') = Bool True
   \<and> take 6 (ascii ''0123456789ABCDEF'') \<noteq> ascii ''0123456789ABCDEF''
   \<and> read_prop (body (health (sample_env\<lparr>env_PUBLISHER_KEY := None\<rparr>))) (ascii ''key_prefix'') = Null
   \<and> read_prop (body (health (sample_env\<lparr>env_PUBLISHER_KEY := None\<rparr>))) (ascii ''has_key'')
       = Bool False"
  using health_key_prefix [of sample_env "ascii ''0123456789ABCDEF''"]
    health_key_prefix [of "sample_env\<lparr>env_PUBLISHER_KEY := None\<rparr>" "[]"]
  by (simp add: sample_env_def ascii_def)

text \<open>
  C7. Each of the three routes is a total function to a response: whatever error \<open>e\<close>
  its \<^verbatim>\<open>try\<close> block raises (a rejected upstream call, a failed conversion, a body that
  cannot be destructured), the route answers 500 \<^verbatim>\<open>server_error\<close> whose \<open>details\<close> are
  the upstream status code when the error carries one, and the error's message otherwise
  (for \<^verbatim>\<open>/open-chest\<close>, the error's string form when the message is empty).
\<close>

theorem routes_convert_errors:
  "(verify_only_try env rt b = (Inl e, calls) \<longrightarrow>
      verify_only env rt b =
        (json 500 [(''error'', Str (ascii ''server_error'')),
                   (''details'', case exn_status e of
                                   Some n \<Rightarrow> if n \<noteq> 0 then Num (Fin (of_nat n)) else Str (exn_message e)
                                 | None \<Rightarrow> Str (exn_message e))], calls))
   \<and> (grant_only_try env rt b = (Inl e, calls) \<longrightarrow>
      grant_only env rt b =
        (json 500 [(''error'', Str (ascii ''server_error'')),
                   (''details'', case exn_status e of
                                   Some n \<Rightarrow> if n \<noteq> 0 then Num (Fin (of_nat n)) else Str (exn_message e)
                                 | None \<Rightarrow> Str (exn_message e))], calls))
   \<and> (open_chest_try env rt b = (Inl e, calls) \<longrightarrow>
      open_chest env rt b =
        (json 500 [(''error'', Str (ascii ''server_error'')),
                   (''details'', case exn_status e of
                                   Some n \<Rightarrow> if n \<noteq> 0 then Num (Fin (of_nat n))
                                            else if exn_message e \<noteq> [] then Str (exn_message e)
                                            else Str (error_to_string e)
                                 | None \<Rightarrow> if exn_message e \<noteq> [] then Str (exn_message e)
                                          else Str (error_to_string e))], calls))"
  by (simp add: verify_only_def grant_only_def open_chest_def server_error_def
      server_error_chest_def error_details_def status_val_def truthy_def split: option.split)


theorem routes_convert_errors_witness:
  "fst (verify_only sample_env (sample_rt\<lparr>identity_service := \<lambda>p. Inl upstream_503\<rparr>)
          (chest_request ''480''))
     = json 500 [(''error'', Str (ascii ''server_error'')), (''details'', Num (Fin 503))]
   \<and> fst (grant_only sample_env (sample_rt\<lparr>inventory_service := \<lambda>f. Inl network_error\<rparr>)
          grant_request)
     = json 500 [(''error'', Str (ascii ''server_error'')),
                 (''details'', Str (ascii ''Network Error''))]
   \<and> fst (open_chest sample_env sample_rt Undefined)
     = json 500 [(''error'', Str (ascii ''server_error'')),
                 (''details'', Str (cannot_destructure ''appid'' ''undefined''))]"
proof -
  let ?rt1 = "sample_rt\<lparr>identity_service := \<lambda>p. Inl upstream_503\<rparr>"
  let ?rt2 = "sample_rt\<lparr>inventory_service := \<lambda>f. Inl network_error\<rparr>"
  have 1: "verify_only_try sample_env ?rt1 (chest_request ''480'')
      = (Inl upstream_503, snd (verify_only_try sample_env ?rt1 (chest_request ''480'')))"
    by (simp add: route_eval lit_eval)
  have 2: "grant_only_try sample_env ?rt2 grant_request
      = (Inl network_error, snd (grant_only_try sample_env ?rt2 grant_request))"
    by (simp add: route_eval lit_eval number_eval)
  have 3: "open_chest_try sample_env sample_rt Undefined
      = (Inl (TypeError (cannot_destructure ''appid'' ''undefined'')), [])"
    by (simp add: open_chest_try_def destructure_def)
  from routes_convert_errors [of sample_env ?rt1 "chest_request ''480''" upstream_503
        "snd (verify_only_try sample_env ?rt1 (chest_request ''480''))"] 1
  have "fst (verify_only sample_env ?rt1 (chest_request ''480''))
      = json 500 [(''error'', Str (ascii ''server_error'')), (''details'', Num (Fin 503))]"
    by (simp add: upstream_503_def)
  moreover
  from routes_convert_errors [of sample_env ?rt2 grant_request network_error
        "snd (grant_only_try sample_env ?rt2 grant_request)"] 2
  have "fst (grant_only sample_env ?rt2 grant_request)
      = json 500 [(''error'', Str (ascii ''server_error'')),
                  (''details'', Str (ascii ''Network Error''))]"
    by (simp add: network_error_def)
  moreover
  from routes_convert_errors [of sample_env sample_rt Undefined
        "TypeError (cannot_destructure ''appid'' ''undefined'')" "[]"] 3
  have "fst (open_chest sample_env sample_rt Undefined)
      = json 500 [(''error'', Str (ascii ''server_error'')),
                  (''details'', Str (cannot_destructure ''appid'' ''undefined''))]"
    by (simp add: TypeError_def cannot_destructure_def ascii_def)
  ultimately show ?thesis by simp
qed

lemma snd_verifyTicket:
  "snd (verifyTicket env rt appid ticket steamid)
     = [IdentityCall \<lparr>vp_key = PUBLISHER_KEY env, vp_appid = appid, vp_ticket = ticket\<rparr>]"
  by (simp add: verifyTicket_def Let_def split: sum.split)

lemma grant_form_appid:
  "grant_form env (Num n) steamid itemdefid quantity = Inr f \<Longrightarrow>
   map_of f (ascii ''appid'') = Some (NumberToString n)"
  by (auto simp: grant_form_def ascii_def split: sum.splits)

lemma snd_grantItem:
  "snd (grantItem env rt (Num n) steamid itemdefid quantity) = []
   \<or> (\<exists>f. snd (grantItem env rt (Num n) steamid itemdefid quantity) = [InventoryCall f]
          \<and> map_of f (ascii ''appid'') = Some (NumberToString n))"
  by (auto simp: grantItem_def grant_form_appid split: sum.splits)

lemma destructure_Inr: "destructure k b = Inr x \<Longrightarrow> x = b"
  by (simp add: destructure_def split: if_splits)

text \<open>
  C10. The upstream calls of \<^verbatim>\<open>/open-chest\<close>, in order: none, or the identity call
  alone, or the identity call followed by the inventory call. The identity call carries
  \<^verbatim>\<open>Number(appid)\<close> of the request body; the inventory call, whenever it is made,
  carries the configured \<open>APPID\<close>. When the two numbers differ, so do the application
  identifiers of the two calls.
\<close>

theorem open_chest_appids:
  "snd (open_chest env rt b) = []
   \<or> (\<exists>n. ToNumber (read_prop b (ascii ''appid'')) = Inr n
        \<and> (snd (open_chest env rt b)
              = [IdentityCall \<lparr>vp_key = PUBLISHER_KEY env, vp_appid = Num n,
                               vp_ticket = read_prop b (ascii ''ticket'')\<rparr>]
            \<or> (\<exists>f. snd (open_chest env rt b)
                      = [IdentityCall \<lparr>vp_key = PUBLISHER_KEY env, vp_appid = Num n,
                                       vp_ticket = read_prop b (ascii ''ticket'')\<rparr>,
                         InventoryCall f]
                  \<and> map_of f (ascii ''appid'') = Some (NumberToString (APPID env))
                  \<and> (n \<noteq> APPID env \<longrightarrow> Num n \<noteq> Num (APPID env)))))"
proof -
  have v: "verifyTicket env rt a t s = (x, c) \<Longrightarrow>
      c = [IdentityCall \<lparr>vp_key = PUBLISHER_KEY env, vp_appid = a, vp_ticket = t\<rparr>]" for a t s x c
    using snd_verifyTicket [of env rt a t s] by simp
  have g: "grantItem env rt (Num n) s i q = (x, c) \<Longrightarrow>
      c = [] \<or> (\<exists>f. c = [InventoryCall f] \<and> map_of f (ascii ''appid'') = Some (NumberToString n))"
    for n s i q x c
    using snd_grantItem [of env rt n s i q] by simp
  show ?thesis
    unfolding open_chest_def open_chest_try_def Let_def
    by (auto split: sum.splits prod.splits dest!: v g destructure_Inr)
qed


theorem open_chest_appids_witness:
  "\<exists>f. snd (open_chest sample_env sample_rt (chest_request ''999''))
          = [IdentityCall \<lparr>vp_key = PUBLISHER_KEY sample_env, vp_appid = Num (Fin 999),
                           vp_ticket = Str (ascii ''14000000abcdef'')\<rparr>,
             InventoryCall f]
      \<and> map_of f (ascii ''appid'') = Some (ascii ''480'')
      \<and> APPID sample_env = Fin 480"
proof -
  have a: "APPID sample_env = Fin 480"
    by (simp add: APPID_def sample_env_def lit_eval)
  have n: "NumberToString (Fin 480) = ascii ''480''"
    by (simp add: number_eval ascii_def)
  have c: "length (snd (open_chest sample_env sample_rt (chest_request ''999''))) = 2"
    by (simp add: route_eval lit_eval number_eval)
  have t: "ToNumber (read_prop (chest_request ''999'') (ascii ''appid'')) = Inr (Fin 999)"
    "read_prop (chest_request ''999'') (ascii ''ticket'') = Str (ascii ''14000000abcdef'')"
    by (simp_all add: chest_request_def read_prop_def ToNumber_def lit_eval)
  from open_chest_appids [of sample_env sample_rt "chest_request ''999''"] c t a n
  show ?thesis by auto
qed

text \<open>
  When \<^verbatim>\<open>grantItem\<close> returns a result, its \<open>ok\<close> is the three-way disjunction of C2:
  \<open>result === 1\<close>, or \<open>success === true\<close>, or \<open>item_json\<close> is a string that parses
  to a value whose \<open>length\<close> is greater than 0.
\<close>

lemma gt_zero_empty_array: "gt_zero (read_prop (Arr []) (ascii ''length'')) = Inr False"
  by (simp add: gt_zero_def ToNumber_def read_prop_def)

lemma grant_result_ok_iff:
  assumes "grant_result rt data = Inr g"
  shows "g_ok g \<longleftrightarrow>
     strict_eq (read_prop (if truthy (read_prop data (ascii ''response''))
                           then read_prop data (ascii ''response'') else Obj [])
                  (ascii ''result'')) (Num (Fin 1))
     \<or> strict_eq (read_prop (if truthy (read_prop data (ascii ''response''))
                             then read_prop data (ascii ''response'') else Obj [])
                    (ascii ''success'')) (Bool True)
     \<or> (\<exists>js items. read_prop (if truthy (read_prop data (ascii ''response''))
                                then read_prop data (ascii ''response'') else Obj [])
                       (ascii ''item_json'') = Str js
           \<and> JSON_parse rt js = Some items
           \<and> gt_zero (read_prop items (ascii ''length'')) = Inr True)"
proof -
  define resp where "resp = (if truthy (read_prop data (ascii ''response''))
                             then read_prop data (ascii ''response'') else Obj [])"
  define ok where "ok \<longleftrightarrow> strict_eq (read_prop resp (ascii ''result'')) (Num (Fin 1))
                          \<or> strict_eq (read_prop resp (ascii ''success'')) (Bool True)"
  have gr: "grant_result rt data =
      (case read_prop resp (ascii ''item_json'') of
         Str js \<Rightarrow>
           (let items = (case JSON_parse rt js of Some v \<Rightarrow> v | None \<Rightarrow> Arr [])
            in case get_prop items (ascii ''length'') of
                 Inl e \<Rightarrow> Inl e
               | Inr len \<Rightarrow>
                   (case gt_zero len of
                      Inl e \<Rightarrow> Inl e
                    | Inr b \<Rightarrow> Inr \<lparr>g_ok = (ok \<or> b), g_items = items, g_raw = data\<rparr>))
       | _ \<Rightarrow> Inr \<lparr>g_ok = ok, g_items = Arr [], g_raw = data\<rparr>)"
    unfolding grant_result_def resp_def ok_def Let_def by (rule refl)
  have goal: "g_ok g \<longleftrightarrow> ok \<or> (\<exists>js items. read_prop resp (ascii ''item_json'') = Str js
           \<and> JSON_parse rt js = Some items
           \<and> gt_zero (read_prop items (ascii ''length'')) = Inr True)"
  proof (cases "\<exists>js. read_prop resp (ascii ''item_json'') = Str js")
    case False
    with assms gr have "g_ok g = ok"
      by (cases "read_prop resp (ascii ''item_json'')") auto
    with False show ?thesis by auto
  next
    case True
    then obtain js where js: "read_prop resp (ascii ''item_json'') = Str js" ..
    show ?thesis
    proof (cases "JSON_parse rt js")
      case None
      with assms gr js have "g_ok g = ok"
        by (auto simp: get_prop_def gt_zero_empty_array)
      with None js show ?thesis by auto
    next
      case (Some items)
      with assms gr js obtain b where b: "gt_zero (read_prop items (ascii ''length'')) = Inr b"
        and "g_ok g = (ok \<or> b)"
        by (auto simp: get_prop_def split: if_splits sum.splits)
      with Some js show ?thesis by auto
    qed
  qed
  then show ?thesis unfolding ok_def resp_def by (simp only: disj_assoc)
qed

text \<open>
  C2 fails where \<^verbatim>\<open>grantItem\<close> returns no result. The inventory response below reports
  success (\<open>result\<close> is 1) and its \<open>item_json\<close> is the JSON text \<^verbatim>\<open>null\<close>: the parse
  succeeds, \<^verbatim>\<open>items.length\<close> raises on \<^verbatim>\<open>null\<close> outside the \<^verbatim>\<open>try\<close> that guards the
  parse, and \<^verbatim>\<open>/grant-only\<close> answers 500 \<^verbatim>\<open>server_error\<close> instead of the grant.
\<close>

theorem grantItem_null_items_raises:
  "fst (grantItem sample_env (sample_rt\<lparr>inventory_service := \<lambda>f. Inr null_items_response\<rparr>)
          (Num (Fin 480)) (Str (ascii ''76561198000000001'')) (Num (Fin 10001)) (Num (Fin 1)))
     = Inl (TypeError (cannot_read ''null'' (ascii ''length'')))
   \<and> fst (grant_only sample_env (sample_rt\<lparr>inventory_service := \<lambda>f. Inr null_items_response\<rparr>)
          grant_request)
     = json 500 [(''error'', Str (ascii ''server_error'')),
                 (''details'', Str (cannot_read ''null'' (ascii ''length'')))]"
  by (simp add: route_eval lit_eval number_eval)

end
